theory Spec2Isabelle
  imports Complex_Main
begin

section \<open>The local embedding server (local_embedding_server.py)\<close>

text \<open>
  The module is a FastAPI application with four routes and two module globals,
  \<^verbatim>\<open>MODEL_NAME\<close> and \<^verbatim>\<open>_model\<close>. The handlers are embedded as functions
  that take the module state and return a result together with the new state. An
  exception is the left summand of the result. The third-party library
  \<^verbatim>\<open>sentence_transformers\<close> is not part of the repository: it is a parameter of every
  operation that calls it.
\<close>

subsection \<open>Python strings\<close>

text \<open>
  A Python \<^verbatim>\<open>str\<close> is a sequence of Unicode code points. A code point is a natural
  number; a literal of the source is written \<open>py ''...''\<close>.
\<close>

type_synonym py_str = "nat list"

definition py :: "string \<Rightarrow> py_str" where
  "py cs = map of_char cs"

text \<open>
  \<^verbatim>\<open>str.strip()\<close> with no argument removes the leading and the trailing characters
  that \<^verbatim>\<open>str.isspace\<close> accepts. These are the code points CPython lists as whitespace:
  U+0009..U+000D, U+001C..U+001F, U+0020, U+0085, U+00A0, U+1680, U+2000..U+200A,
  U+2028, U+2029, U+202F, U+205F and U+3000.
\<close>

definition isspace :: "nat \<Rightarrow> bool" where
  "isspace c =
     ((0x09 \<le> c \<and> c \<le> 0x0D) \<or> (0x1C \<le> c \<and> c \<le> 0x1F) \<or> c = 0x20 \<or> c = 0x85 \<or>
      c = 0xA0 \<or> c = 0x1680 \<or> (0x2000 \<le> c \<and> c \<le> 0x200A) \<or> c = 0x2028 \<or>
      c = 0x2029 \<or> c = 0x202F \<or> c = 0x205F \<or> c = 0x3000)"

definition lstrip :: "py_str \<Rightarrow> py_str" where
  "lstrip s = dropWhile isspace s"

definition rstrip :: "py_str \<Rightarrow> py_str" where
  "rstrip s = rev (dropWhile isspace (rev s))"

definition strip :: "py_str \<Rightarrow> py_str" where
  "strip s = rstrip (lstrip s)"

subsection \<open>The pydantic models\<close>

text \<open>
  \<^verbatim>\<open>List[float]\<close>: the floating-point numbers are only passed on, never computed
  with, so their type is the parameter \<open>'f\<close>. The body of a response is kept as such a
  value; its serialisation to JSON text is outside the model.
\<close>

record EmbeddingRequest =
  input :: py_str

record 'f EmbeddingData =
  embedding :: "'f list"

record 'f EmbeddingResponse =
  data :: "'f EmbeddingData list"

subsection \<open>The library and the module state\<close>

text \<open>
  An element of the vector the model returns: a Python \<^verbatim>\<open>float\<close>, or an object of
  another type (an \<^verbatim>\<open>int\<close>, a \<^verbatim>\<open>str\<close>, \<^verbatim>\<open>None\<close>, ...), of type \<open>'o\<close>.
\<close>

datatype ('f, 'o) element = Float 'f | Other 'o

text \<open>
  What \<^verbatim>\<open>model.encode(text, convert_to_numpy=True)\<close> returns for one text: an object
  with a \<^verbatim>\<open>tolist\<close> method (a numpy array, a tensor) or any other iterable. The
  source handles both: it calls \<^verbatim>\<open>tolist()\<close> on an object that has the method and
  \<^verbatim>\<open>list(...)\<close> on any other (\<open>list_of\<close>). Either way the result is the elements,
  in order.
\<close>

datatype 'v raw_vector = Array (elements: "'v list") | Iterable (elements: "'v list")

fun hasattr_tolist :: "'v raw_vector \<Rightarrow> bool" where
  "hasattr_tolist (Array xs) = True"
| "hasattr_tolist (Iterable xs) = False"

fun tolist :: "'v raw_vector \<Rightarrow> 'v list" where
  "tolist (Array xs) = xs"
| "tolist (Iterable xs) = xs"

fun list_of :: "'v raw_vector \<Rightarrow> 'v list" where
  "list_of (Array xs) = xs"
| "list_of (Iterable xs) = xs"

text \<open>
  The calls the module makes into the library are recorded in a log, in order, each with
  its outcome: \<open>LoadModel n\<close> for \<^verbatim>\<open>SentenceTransformer(n)\<close> and \<open>EncodeText t\<close> for
  \<^verbatim>\<open>model.encode(t, convert_to_numpy=True)\<close>.
\<close>

datatype outcome = Returned | Raised

datatype lib_call = LoadModel py_str outcome | EncodeText py_str outcome

fun load_names :: "lib_call list \<Rightarrow> py_str list" where
  "load_names [] = []"
| "load_names (LoadModel n out # cs) = n # load_names cs"
| "load_names (EncodeText t out # cs) = load_names cs"

fun load_outcomes :: "lib_call list \<Rightarrow> outcome list" where
  "load_outcomes [] = []"
| "load_outcomes (LoadModel n out # cs) = out # load_outcomes cs"
| "load_outcomes (EncodeText t out # cs) = load_outcomes cs"

fun encode_texts :: "lib_call list \<Rightarrow> py_str list" where
  "encode_texts [] = []"
| "encode_texts (LoadModel n out # cs) = encode_texts cs"
| "encode_texts (EncodeText t out # cs) = t # encode_texts cs"

text \<open>
  The library: the constructor and the \<^verbatim>\<open>encode\<close> method. Either returns a value or
  raises (\<open>Inl\<close>, with the exception's message). Loading reads the disk or the network,
  so the outcome of a call may depend on what happened before: both take the log of the
  earlier calls as their first argument. \<open>'m\<close> is the type of a loaded model.

  \<open>coerce_float\<close> is pydantic's part: what its validation of a \<^verbatim>\<open>float\<close> field makes
  of an object that is not a \<^verbatim>\<open>float\<close>, the float it is converted to (an \<^verbatim>\<open>int\<close>
  to the nearest float, say) or \<open>None\<close> when the object is refused.
\<close>

record ('m, 'f, 'o) library =
  SentenceTransformer :: "lib_call list \<Rightarrow> py_str \<Rightarrow> py_str + 'm"
  encode :: "lib_call list \<Rightarrow> 'm \<Rightarrow> py_str \<Rightarrow> py_str + ('f, 'o) element raw_vector"
  coerce_float :: "'o \<Rightarrow> 'f option"

text \<open>
  The module globals: \<^verbatim>\<open>MODEL_NAME\<close>, \<^verbatim>\<open>_model\<close> (here \<open>model_ref\<close>; \<open>None\<close>
  is Python's \<^verbatim>\<open>None\<close>), and the log of library calls.
\<close>

record 'm module_state =
  MODEL_NAME :: py_str
  model_ref :: "'m option"
  calls :: "lib_call list"

datatype exn = HTTPException nat py_str | LibraryError py_str | ValidationError

subsection \<open>Start-up\<close>

text \<open>
  \<^verbatim>\<open>os.getenv(key, default)\<close> on the environment of the process, and the module-level
  assignments that run once, when the module is imported.
\<close>

definition getenv :: "(py_str \<rightharpoonup> py_str) \<Rightarrow> py_str \<Rightarrow> py_str \<Rightarrow> py_str" where
  "getenv environ key dflt = (case environ key of None \<Rightarrow> dflt | Some v \<Rightarrow> v)"

definition import_module :: "(py_str \<rightharpoonup> py_str) \<Rightarrow> 'm module_state" where
  "import_module environ =
     \<lparr>MODEL_NAME = getenv environ (py ''EMBEDDING_MODEL'')
                     (py ''sentence-transformers/all-MiniLM-L6-v2''),
      model_ref = None,
      calls = []\<rparr>"

subsection \<open>The handlers\<close>

definition get_model ::
  "('m, 'f, 'o) library \<Rightarrow> 'm module_state \<Rightarrow> (exn + 'm) \<times> 'm module_state" where
  "get_model lib st =
     (case model_ref st of
        None \<Rightarrow>
          (case SentenceTransformer lib (calls st) (MODEL_NAME st) of
             Inl e \<Rightarrow>
               (Inl (LibraryError e),
                st\<lparr>calls := calls st @ [LoadModel (MODEL_NAME st) Raised]\<rparr>)
           | Inr m \<Rightarrow>
               (Inr m,
                st\<lparr>model_ref := Some m,
                   calls := calls st @ [LoadModel (MODEL_NAME st) Returned]\<rparr>))
      | Some m \<Rightarrow> (Inr m, st))"

text \<open>
  \<^verbatim>\<open>EmbeddingData(embedding=vector)\<close>: pydantic validates every element of the list
  as a \<^verbatim>\<open>float\<close>. A float is kept as it is, another object is converted or refused;
  one refused element makes the constructor raise a \<^verbatim>\<open>ValidationError\<close>.
\<close>

definition validate_float :: "('m, 'f, 'o) library \<Rightarrow> ('f, 'o) element \<Rightarrow> 'f option" where
  "validate_float lib x = (case x of Float f \<Rightarrow> Some f | Other obj \<Rightarrow> coerce_float lib obj)"

fun validate_floats :: "('m, 'f, 'o) library \<Rightarrow> ('f, 'o) element list \<Rightarrow> 'f list option" where
  "validate_floats lib [] = Some []"
| "validate_floats lib (x # xs) =
     (case validate_float lib x of
        None \<Rightarrow> None
      | Some f \<Rightarrow> (case validate_floats lib xs of None \<Rightarrow> None | Some fs \<Rightarrow> Some (f # fs)))"

definition new_EmbeddingData ::
  "('m, 'f, 'o) library \<Rightarrow> ('f, 'o) element list \<Rightarrow> exn + 'f EmbeddingData" where
  "new_EmbeddingData lib vector =
     (case validate_floats lib vector of
        None \<Rightarrow> Inl ValidationError
      | Some fs \<Rightarrow> Inr \<lparr>embedding = fs\<rparr>)"

definition generate_embeddings ::
  "('m, 'f, 'o) library \<Rightarrow> 'm module_state \<Rightarrow> EmbeddingRequest \<Rightarrow>
     (exn + 'f EmbeddingResponse) \<times> 'm module_state" where
  "generate_embeddings lib st request =
     (let text = strip (input request) in
      if text = [] then (Inl (HTTPException 400 (py ''Input must not be empty'')), st)
      else
        (case get_model lib st of
           (Inl e, st1) \<Rightarrow> (Inl e, st1)
         | (Inr model, st1) \<Rightarrow>
             (case encode lib (calls st1) model text of
                Inl e \<Rightarrow>
                  (Inl (LibraryError e), st1\<lparr>calls := calls st1 @ [EncodeText text Raised]\<rparr>)
              | Inr raw_vector \<Rightarrow>
                  (let vector = (if hasattr_tolist raw_vector then tolist raw_vector
                                 else list_of raw_vector);
                       st2 = st1\<lparr>calls := calls st1 @ [EncodeText text Returned]\<rparr>
                   in case new_EmbeddingData lib vector of
                        Inl e \<Rightarrow> (Inl e, st2)
                      | Inr d \<Rightarrow> (Inr \<lparr>data = [d]\<rparr>, st2)))))"

text \<open>A Python \<^verbatim>\<open>dict\<close> of strings, in insertion order.\<close>

type_synonym py_dict = "(py_str \<times> py_str) list"

definition healthcheck :: "'m module_state \<Rightarrow> py_dict" where
  "healthcheck st = [(py ''status'', py ''ok''), (py ''model'', MODEL_NAME st)]"

definition landing :: py_dict where
  "landing = [(py ''status'', py ''ok''),
              (py ''message'', py ''Use POST /v1/embeddings for embeddings'')]"

definition favicon :: "unit option" where
  "favicon = None"

subsection \<open>The application\<close>

text \<open>
  The routes the decorators register, and what FastAPI makes of a handler's outcome: a
  returned value is the body of a response with the route's status code (200 unless the
  decorator sets \<^verbatim>\<open>status_code\<close>; a 204 response has no body), an
  \<^verbatim>\<open>HTTPException(status_code, detail)\<close> is a response with that status and that
  detail, and any other exception is a 500 response.
\<close>

datatype http_request =
  POST_v1_embeddings EmbeddingRequest | GET_healthz | GET_root | GET_favicon_ico

datatype 'f content =
  Embeddings "'f EmbeddingResponse" | Dict py_dict | Detail py_str | Empty
  | InternalServerError

record 'f http_response =
  status_code :: nat
  content :: "'f content"

definition app ::
  "('m, 'f, 'o) library \<Rightarrow> 'm module_state \<Rightarrow> http_request \<Rightarrow>
     'f http_response \<times> 'm module_state" where
  "app lib st req =
     (case req of
        POST_v1_embeddings request \<Rightarrow>
          (case generate_embeddings lib st request of
             (Inr r, st1) \<Rightarrow> (\<lparr>status_code = 200, content = Embeddings r\<rparr>, st1)
           | (Inl (HTTPException code detail), st1) \<Rightarrow>
               (\<lparr>status_code = code, content = Detail detail\<rparr>, st1)
           | (Inl (LibraryError e), st1) \<Rightarrow>
               (\<lparr>status_code = 500, content = InternalServerError\<rparr>, st1)
           | (Inl ValidationError, st1) \<Rightarrow>
               (\<lparr>status_code = 500, content = InternalServerError\<rparr>, st1))
      | GET_healthz \<Rightarrow> (\<lparr>status_code = 200, content = Dict (healthcheck st)\<rparr>, st)
      | GET_root \<Rightarrow> (\<lparr>status_code = 200, content = Dict landing\<rparr>, st)
      | GET_favicon_ico \<Rightarrow>
          (case favicon of
             None \<Rightarrow> (\<lparr>status_code = 204, content = Empty\<rparr>, st)
           | Some u \<Rightarrow> (\<lparr>status_code = 204, content = Empty\<rparr>, st)))"

text \<open>A process serves its requests one after the other.\<close>

fun serve ::
  "('m, 'f, 'o) library \<Rightarrow> 'm module_state \<Rightarrow> http_request list \<Rightarrow>
     'f http_response list \<times> 'm module_state" where
  "serve lib st [] = ([], st)"
| "serve lib st (req # reqs) =
     (case app lib st req of
        (resp, st1) \<Rightarrow> (case serve lib st1 reqs of (resps, st2) \<Rightarrow> (resp # resps, st2)))"

text \<open>
  The load operations a process has made so far (the constructor calls), and those of them
  that returned a model.
\<close>

definition loads :: "'m module_state \<Rightarrow> nat" where
  "loads st = length (load_outcomes (calls st))"

definition models_created :: "'m module_state \<Rightarrow> nat" where
  "models_created st = length (filter (\<lambda>out. out = Returned) (load_outcomes (calls st)))"

subsection \<open>Test doubles for the library\<close>

text \<open>
  \<open>test_library k\<close> fails to load while fewer than \<open>k\<close> library calls have been made
  and loads from then on. The model it loads is the identifier it was given; its
  embedding of a text is the text's code points as floats. An object that is not a float
  is a string here: the validation converts \<^verbatim>\<open>"1.5"\<close> and refuses every other one.
\<close>

definition test_library :: "nat \<Rightarrow> (py_str, real, py_str) library" where
  "test_library k =
     \<lparr>SentenceTransformer = (\<lambda>h n. if length h < k then Inl (py ''OSError'') else Inr n),
      encode = (\<lambda>h m t. Inr (Array (map (\<lambda>c. Float (real c)) t))),
      coerce_float = (\<lambda>obj. if obj = py ''1.5'' then Some 1.5 else None)\<rparr>"

text \<open>
  \<open>scripted_library out\<close> always loads, and its \<^verbatim>\<open>encode\<close> has the outcome \<open>out\<close>
  for every text.
\<close>

definition scripted_library ::
  "(py_str + (real, py_str) element raw_vector) \<Rightarrow> (py_str, real, py_str) library" where
  "scripted_library out = (test_library 0)\<lparr>encode := (\<lambda>h m t. out)\<rparr>"

section \<open>Trimming\<close>

lemma strip_Nil_iff: "strip s = [] \<longleftrightarrow> (\<forall>c \<in> set s. isspace c)"
proof
  assume "strip s = []"
  then have all: "\<forall>c \<in> set (dropWhile isspace s). isspace c"
    by (simp add: strip_def rstrip_def lstrip_def)
  have "dropWhile isspace s = []"
  proof (rule ccontr)
    assume ne: "dropWhile isspace s \<noteq> []"
    then have "\<not> isspace (hd (dropWhile isspace s))"
      by (rule hd_dropWhile)
    moreover have "hd (dropWhile isspace s) \<in> set (dropWhile isspace s)"
      using ne by simp
    ultimately show False using all by blast
  qed
  then show "\<forall>c \<in> set s. isspace c"
    by simp
next
  assume "\<forall>c \<in> set s. isspace c"
  then have "dropWhile isspace s = []"
    by simp
  then show "strip s = []"
    unfolding strip_def rstrip_def lstrip_def by (simp del: dropWhile_eq_Nil_conv)
qed

lemma rstrip_keeps_head:
  assumes "s \<noteq> []" and "\<not> isspace (hd s)"
  shows "rstrip s \<noteq> [] \<and> hd (rstrip s) = hd s"
proof -
  obtain x xs where s: "s = x # xs"
    using assms(1) by (cases s) auto
  with assms(2) have nx: "\<not> isspace x" by simp
  have "dropWhile isspace (rev xs @ [x]) =
          (if \<forall>c \<in> set (rev xs). isspace c then [x] else dropWhile isspace (rev xs) @ [x])"
    using nx by (simp add: dropWhile_append)
  then obtain zs where "dropWhile isspace (rev xs @ [x]) = zs @ [x]"
    by (metis append_Nil)
  then show ?thesis
    by (simp add: rstrip_def s)
qed

lemma rstrip_rstrip: "rstrip (rstrip s) = rstrip s"
  by (simp add: rstrip_def)

lemma lstrip_strip: "lstrip (strip s) = strip s"
proof (cases "lstrip s = []")
  case True
  then show ?thesis by (simp add: strip_def rstrip_def lstrip_def del: dropWhile_eq_Nil_conv)
next
  case False
  then have "\<not> isspace (hd (lstrip s))"
    unfolding lstrip_def by (rule hd_dropWhile)
  with False have "rstrip (lstrip s) \<noteq> [] \<and> hd (rstrip (lstrip s)) = hd (lstrip s)"
    by (rule rstrip_keeps_head)
  with \<open>\<not> isspace (hd (lstrip s))\<close> have "dropWhile isspace (rstrip (lstrip s)) = rstrip (lstrip s)"
    by (cases "rstrip (lstrip s)") auto
  then show ?thesis
    by (simp add: strip_def lstrip_def)
qed

lemma strip_strip: "strip (strip s) = strip s"
proof -
  have "strip (strip s) = rstrip (lstrip (strip s))"
    by (simp add: strip_def)
  also have "\<dots> = rstrip (strip s)"
    by (simp only: lstrip_strip)
  also have "\<dots> = strip s"
    by (simp add: strip_def rstrip_rstrip)
  finally show ?thesis .
qed

lemma strip_pad:
  assumes l: "\<forall>c \<in> set l. isspace c" and r: "\<forall>c \<in> set r. isspace c"
  shows "strip (l @ s @ r) = strip s"
proof -
  have left: "lstrip (l @ s @ r) = dropWhile isspace (s @ r)"
    using l by (simp add: lstrip_def dropWhile_append2)
  show ?thesis
  proof (cases "\<forall>c \<in> set s. isspace c")
    case True
    with r have "dropWhile isspace (s @ r) = []"
      by auto
    with left have "strip (l @ s @ r) = []"
      by (simp add: strip_def rstrip_def del: dropWhile_eq_Nil_conv)
    moreover from True have "strip s = []"
      by (simp add: strip_Nil_iff)
    ultimately show ?thesis by simp
  next
    case False
    then obtain c where "c \<in> set s" and "\<not> isspace c"
      by blast
    then have "dropWhile isspace (s @ r) = dropWhile isspace s @ r"
      by (rule dropWhile_append1)
    with left have "strip (l @ s @ r) = rstrip (dropWhile isspace s @ r)"
      by (simp add: strip_def)
    also have "\<dots> = rev (dropWhile isspace (rev r @ rev (dropWhile isspace s)))"
      by (simp add: rstrip_def)
    also have "\<dots> = rev (dropWhile isspace (rev (dropWhile isspace s)))"
    proof -
      have "dropWhile isspace (rev r @ rev (dropWhile isspace s)) =
              dropWhile isspace (rev (dropWhile isspace s))"
        using r by (intro dropWhile_append2) simp
      then show ?thesis by (rule arg_cong)
    qed
    also have "\<dots> = strip s"
      by (simp add: strip_def rstrip_def lstrip_def)
    finally show ?thesis .
  qed
qed

lemma strip_decomposition:
  "\<exists>a b. s = a @ strip s @ b \<and> (\<forall>c \<in> set a. isspace c) \<and> (\<forall>c \<in> set b. isspace c)"
proof -
  let ?t = "dropWhile isspace s"
  let ?a = "takeWhile isspace s"
  let ?b = "rev (takeWhile isspace (rev ?t))"
  have "?t = rev (takeWhile isspace (rev ?t) @ dropWhile isspace (rev ?t))"
    by (simp only: takeWhile_dropWhile_id rev_rev_ident)
  also have "\<dots> = rev (dropWhile isspace (rev ?t)) @ ?b"
    by (rule rev_append)
  finally have t: "?t = strip s @ ?b"
    unfolding strip_def rstrip_def lstrip_def .
  have "s = ?a @ ?t"
    by simp
  with t have "s = ?a @ strip s @ ?b"
    by simp
  moreover have "\<forall>c \<in> set ?a. isspace c"
    by (auto dest: set_takeWhileD)
  moreover have "\<forall>c \<in> set ?b. isspace c"
    by (auto dest: set_takeWhileD)
  ultimately show ?thesis by blast
qed

lemma strip_ends:
  assumes "strip s \<noteq> []"
  shows "\<not> isspace (hd (strip s)) \<and> \<not> isspace (last (strip s))"
proof -
  from assms have ne: "lstrip s \<noteq> []"
    by (auto simp: strip_def rstrip_def)
  then have h: "\<not> isspace (hd (lstrip s))"
    unfolding lstrip_def by (rule hd_dropWhile)
  with ne have "hd (rstrip (lstrip s)) = hd (lstrip s)"
    using rstrip_keeps_head by blast
  with h have first: "\<not> isspace (hd (strip s))"
    by (simp add: strip_def)
  from assms have d: "dropWhile isspace (rev (lstrip s)) \<noteq> []"
    unfolding strip_def rstrip_def by (simp del: dropWhile_eq_Nil_conv)
  then have "\<not> isspace (hd (dropWhile isspace (rev (lstrip s))))"
    by (rule hd_dropWhile)
  moreover have "last (strip s) = hd (dropWhile isspace (rev (lstrip s)))"
    using d by (simp add: strip_def rstrip_def last_rev del: dropWhile_eq_Nil_conv)
  ultimately show ?thesis using first by simp
qed

section \<open>The log of library calls\<close>

lemma load_outcomes_append [simp]:
  "load_outcomes (xs @ ys) = load_outcomes xs @ load_outcomes ys"
  by (induction xs rule: load_outcomes.induct) simp_all

lemma load_names_append [simp]:
  "load_names (xs @ ys) = load_names xs @ load_names ys"
  by (induction xs rule: load_names.induct) simp_all

lemma encode_texts_append [simp]:
  "encode_texts (xs @ ys) = encode_texts xs @ encode_texts ys"
  by (induction xs rule: encode_texts.induct) simp_all

section \<open>The handlers, case by case\<close>

lemma generate_embeddings_empty:
  "strip (input request) = [] \<Longrightarrow>
     generate_embeddings lib st request =
       (Inl (HTTPException 400 (py ''Input must not be empty'')), st)"
  by (simp add: generate_embeddings_def)

lemma get_model_loaded: "model_ref st = Some m \<Longrightarrow> get_model lib st = (Inr m, st)"
  by (simp add: get_model_def)

lemma get_model_load_returns:
  "model_ref st = None \<Longrightarrow> SentenceTransformer lib (calls st) (MODEL_NAME st) = Inr m \<Longrightarrow>
     get_model lib st =
       (Inr m, st\<lparr>model_ref := Some m,
                  calls := calls st @ [LoadModel (MODEL_NAME st) Returned]\<rparr>)"
  by (simp add: get_model_def)

lemma get_model_load_raises:
  "model_ref st = None \<Longrightarrow> SentenceTransformer lib (calls st) (MODEL_NAME st) = Inl e \<Longrightarrow>
     get_model lib st =
       (Inl (LibraryError e), st\<lparr>calls := calls st @ [LoadModel (MODEL_NAME st) Raised]\<rparr>)"
  by (simp add: get_model_def)

lemma vector_conversion:
  "(if hasattr_tolist v then tolist v else list_of v) = elements v"
  by (cases v) simp_all

lemma generate_embeddings_nonempty:
  "strip (input request) \<noteq> [] \<Longrightarrow>
     generate_embeddings lib st request =
       (case get_model lib st of
          (Inl e, st1) \<Rightarrow> (Inl e, st1)
        | (Inr model, st1) \<Rightarrow>
            (case encode lib (calls st1) model (strip (input request)) of
               Inl e \<Rightarrow>
                 (Inl (LibraryError e),
                  st1\<lparr>calls := calls st1 @ [EncodeText (strip (input request)) Raised]\<rparr>)
             | Inr raw_vector \<Rightarrow>
                 (case validate_floats lib (elements raw_vector) of
                    None \<Rightarrow> Inl ValidationError
                  | Some fs \<Rightarrow> Inr \<lparr>data = [\<lparr>embedding = fs\<rparr>]\<rparr>,
                  st1\<lparr>calls := calls st1 @ [EncodeText (strip (input request)) Returned]\<rparr>)))"
  by (simp add: generate_embeddings_def new_EmbeddingData_def Let_def vector_conversion
      split: prod.splits sum.splits option.splits)

lemma validate_floats_Float: "validate_floats lib (map Float fs) = Some fs"
  by (induction fs) (simp_all add: validate_float_def)

lemma validate_floats_length:
  "validate_floats lib xs = Some fs \<Longrightarrow> length fs = length xs"
  by (induction xs arbitrary: fs) (auto split: option.splits)

lemma get_model_raises_LibraryError:
  "get_model lib st = (Inl e, st1) \<Longrightarrow> \<exists>msg. e = LibraryError msg"
  by (auto simp: get_model_def split: option.splits sum.splits)

section \<open>Serving requests\<close>

lemma snd_serve_Cons:
  "snd (serve lib st (req # reqs)) = snd (serve lib (snd (app lib st req)) reqs)"
  by (simp split: prod.splits)

lemma snd_app_POST:
  "snd (app lib st (POST_v1_embeddings request)) = snd (generate_embeddings lib st request)"
  by (simp add: app_def split: prod.splits sum.splits exn.splits)

lemma snd_app_GET:
  "snd (app lib st GET_healthz) = st" "snd (app lib st GET_root) = st"
  "snd (app lib st GET_favicon_ico) = st"
  by (simp_all add: app_def favicon_def)

text \<open>
  What a request does to the module state: nothing, or what \<open>get_model\<close> does, followed
  by at most one logged \<open>encode\<close> call.
\<close>

lemma snd_app_cases:
  "snd (app lib st req) = st \<or>
   snd (app lib st req) = snd (get_model lib st) \<or>
   (\<exists>t out. snd (app lib st req) =
      (snd (get_model lib st))\<lparr>calls := calls (snd (get_model lib st)) @ [EncodeText t out]\<rparr>)"
proof (cases req)
  case (POST_v1_embeddings request)
  show ?thesis
  proof (cases "strip (input request) = []")
    case True
    then show ?thesis
      by (simp add: POST_v1_embeddings snd_app_POST generate_embeddings_empty)
  next
    case False
    then show ?thesis
      by (cases "get_model lib st")
        (auto simp: POST_v1_embeddings snd_app_POST generate_embeddings_nonempty
           split: sum.splits)
  qed
qed (simp_all add: snd_app_GET)

lemma get_model_MODEL_NAME: "MODEL_NAME (snd (get_model lib st)) = MODEL_NAME st"
  by (simp add: get_model_def split: option.splits sum.splits)

lemma get_model_keeps_model:
  "model_ref st = Some m \<Longrightarrow> snd (get_model lib st) = st"
  by (simp add: get_model_def)

lemma get_model_created:
  "models_created st = (if model_ref st = None then 0 else 1) \<Longrightarrow>
   models_created (snd (get_model lib st)) =
     (if model_ref (snd (get_model lib st)) = None then 0 else 1)"
  by (auto simp: get_model_def models_created_def split: option.splits sum.splits)


lemma get_model_load_outcomes:
  "\<forall>h n. \<exists>m. SentenceTransformer lib h n = Inr m \<Longrightarrow>
   set (load_outcomes (calls (snd (get_model lib st)))) \<subseteq>
     set (load_outcomes (calls st)) \<union> {Returned}"
proof -
  assume a: "\<forall>h n. \<exists>m. SentenceTransformer lib h n = Inr m"
  then obtain m where "SentenceTransformer lib (calls st) (MODEL_NAME st) = Inr m"
    by blast
  then show ?thesis
    by (auto simp: get_model_def split: option.splits)
qed

lemma app_MODEL_NAME: "MODEL_NAME (snd (app lib st req)) = MODEL_NAME st"
  using snd_app_cases [of lib st req] by (auto simp: get_model_MODEL_NAME)

lemma app_keeps_model:
  assumes "model_ref st = Some m"
  shows "model_ref (snd (app lib st req)) = Some m \<and>
         load_outcomes (calls (snd (app lib st req))) = load_outcomes (calls st)"
  using snd_app_cases [of lib st req] assms
  by (auto simp: get_model_keeps_model)

lemma app_created:
  assumes "models_created st = (if model_ref st = None then 0 else 1)"
  shows "models_created (snd (app lib st req)) =
           (if model_ref (snd (app lib st req)) = None then 0 else 1)"
proof -
  have g: "models_created (snd (get_model lib st)) =
     (if model_ref (snd (get_model lib st)) = None then 0 else 1)"
    using assms by (rule get_model_created)
  from snd_app_cases [of lib st req] show ?thesis
  proof (elim disjE exE)
    assume "snd (app lib st req) = st"
    with assms show ?thesis by simp
  next
    assume "snd (app lib st req) = snd (get_model lib st)"
    with g show ?thesis by simp
  next
    fix t out
    assume "snd (app lib st req) =
      (snd (get_model lib st))\<lparr>calls := calls (snd (get_model lib st)) @ [EncodeText t out]\<rparr>"
    with g show ?thesis by (simp add: models_created_def)
  qed
qed


lemma app_load_outcomes:
  assumes "\<forall>h n. \<exists>m. SentenceTransformer lib h n = Inr m"
  shows "set (load_outcomes (calls (snd (app lib st req)))) \<subseteq>
           set (load_outcomes (calls st)) \<union> {Returned}"
  using snd_app_cases [of lib st req] get_model_load_outcomes [OF assms, of st]
  by auto

lemma serve_MODEL_NAME: "MODEL_NAME (snd (serve lib st reqs)) = MODEL_NAME st"
proof (induction reqs arbitrary: st)
  case Nil
  show ?case by simp
next
  case (Cons req reqs)
  show ?case
    by (simp only: snd_serve_Cons Cons.IH app_MODEL_NAME)
qed

lemma serve_keeps_model:
  "model_ref st = Some m \<Longrightarrow>
     model_ref (snd (serve lib st reqs)) = Some m \<and>
     load_outcomes (calls (snd (serve lib st reqs))) = load_outcomes (calls st)"
proof (induction reqs arbitrary: st)
  case Nil
  then show ?case by simp
next
  case (Cons req reqs)
  from Cons.prems have a: "model_ref (snd (app lib st req)) = Some m"
    and b: "load_outcomes (calls (snd (app lib st req))) = load_outcomes (calls st)"
    using app_keeps_model [of st m lib req] by simp_all
  from Cons.IH [OF a] b show ?case
    by (simp only: snd_serve_Cons)
qed

lemma serve_created:
  "models_created st = (if model_ref st = None then 0 else 1) \<Longrightarrow>
     models_created (snd (serve lib st reqs)) =
       (if model_ref (snd (serve lib st reqs)) = None then 0 else 1)"
proof (induction reqs arbitrary: st)
  case Nil
  then show ?case by simp
next
  case (Cons req reqs)
  from Cons.prems have "models_created (snd (app lib st req)) =
           (if model_ref (snd (app lib st req)) = None then 0 else 1)"
    by (rule app_created)
  then show ?case
    unfolding snd_serve_Cons by (rule Cons.IH)
qed


lemma serve_load_outcomes:
  assumes "\<forall>h n. \<exists>m. SentenceTransformer lib h n = Inr m"
  shows "set (load_outcomes (calls (snd (serve lib st reqs)))) \<subseteq>
           set (load_outcomes (calls st)) \<union> {Returned}"
proof (induction reqs arbitrary: st)
  case Nil
  show ?case by auto
next
  case (Cons req reqs)
  from Cons.IH [of "snd (app lib st req)"] app_load_outcomes [OF assms, of st req]
  show ?case
    unfolding snd_serve_Cons by blast
qed

lemma import_module_fresh:
  "model_ref (import_module environ) = None" "calls (import_module environ) = []"
  "MODEL_NAME (import_module environ) =
     getenv environ (py ''EMBEDDING_MODEL'') (py ''sentence-transformers/all-MiniLM-L6-v2'')"
  by (simp_all add: import_module_def)

text \<open>The definitions a concrete request is evaluated with.\<close>

lemmas eval_defs = app_def generate_embeddings_def get_model_def import_module_def getenv_def
  new_EmbeddingData_def validate_float_def scripted_library_def
  test_library_def strip_def lstrip_def rstrip_def isspace_def py_def Let_def
  loads_def models_created_def

section \<open>The properties of the specification\<close>

text \<open>
  C2: an input that is empty or consists of whitespace only is empty after trimming, and
  the embedding operation rejects it: the handler raises
  \<^verbatim>\<open>HTTPException(400, "Input must not be empty")\<close> and leaves the module state as
  it was, so the response has status 400 (a client error) and that detail.
\<close>

theorem empty_input_is_rejected:
  assumes "\<forall>c \<in> set s. isspace c"
  shows "strip s = [] \<and>
         generate_embeddings lib st \<lparr>input = s\<rparr>
           = (Inl (HTTPException 400 (py ''Input must not be empty'')), st) \<and>
         fst (app lib st (POST_v1_embeddings \<lparr>input = s\<rparr>))
           = \<lparr>status_code = 400, content = Detail (py ''Input must not be empty'')\<rparr>"
proof -
  have e: "strip s = []"
    using assms by (simp add: strip_Nil_iff)
  then have "generate_embeddings lib st \<lparr>input = s\<rparr>
               = (Inl (HTTPException 400 (py ''Input must not be empty'')), st)"
    by (simp add: generate_embeddings_empty)
  with e show ?thesis
    by (simp add: app_def)
qed

theorem empty_input_is_rejected_witness:
  "fst (app (test_library 0) (import_module Map.empty) (POST_v1_embeddings \<lparr>input = []\<rparr>))
     = \<lparr>status_code = 400, content = Detail (py ''Input must not be empty'')\<rparr> \<and>
   fst (app (test_library 0) (import_module Map.empty) (POST_v1_embeddings \<lparr>input = py ''   ''\<rparr>))
     = \<lparr>status_code = 400, content = Detail (py ''Input must not be empty'')\<rparr>"
proof -
  have a: "\<forall>c \<in> set ([] :: py_str). isspace c" by simp
  have b: "\<forall>c \<in> set (py ''   ''). isspace c" by (simp add: py_def isspace_def)
  show ?thesis
    using empty_input_is_rejected [OF a, of "test_library 0" "import_module Map.empty"]
      empty_input_is_rejected [OF b, of "test_library 0" "import_module Map.empty"]
    by simp
qed

text \<open>
  C9: a request whose input is empty after trimming is rejected before \<open>get_model\<close> is
  called: the module state after the request is the state before it. When it is the
  first request of a process, the model reference is still \<open>None\<close> and no library
  call has been made.
\<close>

theorem rejected_request_loads_nothing:
  assumes "strip s = []"
  shows "snd (app lib st (POST_v1_embeddings \<lparr>input = s\<rparr>)) = st \<and>
         snd (generate_embeddings lib st \<lparr>input = s\<rparr>) = st \<and>
         model_ref (snd (app lib (import_module environ) (POST_v1_embeddings \<lparr>input = s\<rparr>))) = None \<and>
         calls (snd (app lib (import_module environ) (POST_v1_embeddings \<lparr>input = s\<rparr>))) = []"
proof -
  have "generate_embeddings lib st' \<lparr>input = s\<rparr>
          = (Inl (HTTPException 400 (py ''Input must not be empty'')), st')" for st' :: "'a module_state"
    using assms by (simp add: generate_embeddings_empty)
  then have "snd (generate_embeddings lib st' \<lparr>input = s\<rparr>) = st' \<and>
             snd (app lib st' (POST_v1_embeddings \<lparr>input = s\<rparr>)) = st'" for st' :: "'a module_state"
    by (simp add: app_def)
  then show ?thesis
    by (simp add: import_module_def)
qed

theorem rejected_request_loads_nothing_witness:
  "strip (py ''   '') = [] \<and>
   snd (app (test_library 0) (import_module Map.empty) (POST_v1_embeddings \<lparr>input = py ''   ''\<rparr>))
     = import_module Map.empty \<and>
   model_ref (snd (app (test_library 0) (import_module Map.empty)
                    (POST_v1_embeddings \<lparr>input = py ''   ''\<rparr>))) = None"
proof -
  have a: "strip (py ''   '') = []"
    by (simp add: strip_def lstrip_def rstrip_def py_def isspace_def)
  show ?thesis
    using a rejected_request_loads_nothing [OF a, of "test_library 0" "import_module Map.empty" Map.empty]
    by (simp add: import_module_def)
qed

text \<open>
  C6: in every module state and whatever the library would do, \<^verbatim>\<open>GET /healthz\<close>
  answers 200 with \<^verbatim>\<open>{"status": "ok", "model": MODEL_NAME}\<close> and leaves the state as
  it was (no model is loaded, no library call is made). After any requests served since
  start-up, the model it reports is the identifier configured at start-up.
\<close>

theorem healthz_always_ok:
  "app lib st GET_healthz =
     (\<lparr>status_code = 200,
       content = Dict [(py ''status'', py ''ok''), (py ''model'', MODEL_NAME st)]\<rparr>,
      st) \<and>
   fst (app lib (snd (serve lib' (import_module environ) reqs)) GET_healthz) =
     \<lparr>status_code = 200,
      content = Dict [(py ''status'', py ''ok''),
                      (py ''model'', getenv environ (py ''EMBEDDING_MODEL'')
                                      (py ''sentence-transformers/all-MiniLM-L6-v2''))]\<rparr>"
  by (simp add: app_def healthcheck_def serve_MODEL_NAME import_module_fresh)

text \<open>
  C7: \<^verbatim>\<open>GET /\<close> always answers 200 with the fixed payload
  \<^verbatim>\<open>{"status": "ok", "message": "Use POST /v1/embeddings for embeddings"}\<close>, and
  \<^verbatim>\<open>GET /favicon.ico\<close> always answers 204 with an empty body.
\<close>

theorem landing_and_favicon_fixed:
  "fst (app lib st GET_root) =
     \<lparr>status_code = 200,
      content = Dict [(py ''status'', py ''ok''),
                      (py ''message'', py ''Use POST /v1/embeddings for embeddings'')]\<rparr> \<and>
   fst (app lib st GET_favicon_ico) = \<lparr>status_code = 204, content = Empty\<rparr>"
  by (simp add: app_def landing_def favicon_def)

text \<open>
  C10: \<^verbatim>\<open>GET /healthz\<close>, \<^verbatim>\<open>GET /\<close> and \<^verbatim>\<open>GET /favicon.ico\<close> leave
  the whole module state unchanged (the model reference and the log of library calls
  with it, so no model is loaded), and their responses depend neither on the model
  reference nor on the library.
\<close>

theorem get_routes_leave_state_alone:
  "snd (app lib st GET_healthz) = st \<and>
   snd (app lib st GET_root) = st \<and>
   snd (app lib st GET_favicon_ico) = st \<and>
   fst (app lib' (st\<lparr>model_ref := r, calls := cs\<rparr>) GET_healthz) = fst (app lib st GET_healthz) \<and>
   fst (app lib' (st\<lparr>model_ref := r, calls := cs\<rparr>) GET_root) = fst (app lib st GET_root) \<and>
   fst (app lib' (st\<lparr>model_ref := r, calls := cs\<rparr>) GET_favicon_ico) = fst (app lib st GET_favicon_ico)"
  by (simp add: app_def healthcheck_def favicon_def)

text \<open>
  C5: the handler trims its input and passes the trimmed text to \<^verbatim>\<open>encode\<close>.
  Whitespace added in front of an input or behind it changes neither the response nor the
  state after the request, and a request with input \<open>s\<close> is answered as one with input
  \<open>strip s\<close> (in the same state, with the same library). \<open>strip s\<close> is \<open>s\<close> without a
  leading and a trailing run of whitespace, and neither begins nor ends with whitespace.
  The only text a request passes to \<^verbatim>\<open>encode\<close> is \<open>strip s\<close> (when that is not empty
  and \<open>get_model\<close> returns a model).
\<close>

theorem embedding_of_trimmed_input:
  assumes "\<forall>c \<in> set l. isspace c" and "\<forall>c \<in> set r. isspace c"
  shows "strip (l @ s @ r) = strip s \<and>
         app lib st (POST_v1_embeddings \<lparr>input = l @ s @ r\<rparr>) =
           app lib st (POST_v1_embeddings \<lparr>input = s\<rparr>) \<and>
         app lib st (POST_v1_embeddings \<lparr>input = s\<rparr>) =
           app lib st (POST_v1_embeddings \<lparr>input = strip s\<rparr>) \<and>
         (\<exists>a b. s = a @ strip s @ b \<and> (\<forall>c \<in> set a. isspace c) \<and> (\<forall>c \<in> set b. isspace c)) \<and>
         (strip s \<noteq> [] \<longrightarrow> \<not> isspace (hd (strip s)) \<and> \<not> isspace (last (strip s))) \<and>
         encode_texts (calls (snd (generate_embeddings lib st \<lparr>input = s\<rparr>))) =
           encode_texts (calls st) @
             (if strip s = [] then []
              else case fst (get_model lib st) of Inl e \<Rightarrow> [] | Inr m \<Rightarrow> [strip s])"
proof -
  have pad: "strip (l @ s @ r) = strip s"
    using assms by (rule strip_pad)
  have same: "generate_embeddings lib st \<lparr>input = x\<rparr> = generate_embeddings lib st \<lparr>input = y\<rparr>"
    if "strip x = strip y" for x y
    using that by (simp add: generate_embeddings_def)
  have padded: "app lib st (POST_v1_embeddings \<lparr>input = l @ s @ r\<rparr>) =
                  app lib st (POST_v1_embeddings \<lparr>input = s\<rparr>)"
    using same [OF pad] by (simp add: app_def)
  have trimmed: "app lib st (POST_v1_embeddings \<lparr>input = s\<rparr>) =
                   app lib st (POST_v1_embeddings \<lparr>input = strip s\<rparr>)"
    using same [of s "strip s"] by (simp add: app_def strip_strip)
  have c: "encode_texts (calls (snd (get_model lib st))) = encode_texts (calls st)"
    by (simp add: get_model_def split: option.splits sum.splits)
  have passed: "encode_texts (calls (snd (generate_embeddings lib st \<lparr>input = s\<rparr>))) =
     encode_texts (calls st) @
       (if strip s = [] then []
        else case fst (get_model lib st) of Inl e \<Rightarrow> [] | Inr m \<Rightarrow> [strip s])"
  proof (cases "strip s = []")
    case True
    then show ?thesis by (simp add: generate_embeddings_empty)
  next
    case False
    then show ?thesis
      using c by (cases "get_model lib st")
        (auto simp: generate_embeddings_nonempty split: sum.splits)
  qed
  from pad padded trimmed strip_decomposition [of s] strip_ends [of s] passed
  show ?thesis by blast
qed

theorem embedding_of_trimmed_input_witness:
  "strip (py ''  a b '') = py ''a b'' \<and>
   app (test_library 0) (import_module Map.empty) (POST_v1_embeddings \<lparr>input = py ''  a b ''\<rparr>) =
     app (test_library 0) (import_module Map.empty) (POST_v1_embeddings \<lparr>input = py ''a b''\<rparr>) \<and>
   fst (app (test_library 0) (import_module Map.empty) (POST_v1_embeddings \<lparr>input = py ''  a b ''\<rparr>)) =
     \<lparr>status_code = 200, content = Embeddings \<lparr>data = [\<lparr>embedding = [97, 32, 98]\<rparr>]\<rparr>\<rparr> \<and>
   encode_texts (calls (snd (app (test_library 0) (import_module Map.empty)
                               (POST_v1_embeddings \<lparr>input = py ''  a b ''\<rparr>)))) = [py ''a b'']"
proof -
  let ?st = "import_module Map.empty :: py_str module_state"
  have l: "\<forall>c \<in> set (py ''  ''). isspace c" and r: "\<forall>c \<in> set (py '' ''). isspace c"
    by (simp_all add: py_def isspace_def)
  have cat: "py ''  '' @ py ''a b'' @ py '' '' = py ''  a b ''"
    by (simp add: py_def)
  have bare: "strip (py ''a b'') = py ''a b''"
    by (simp add: strip_def lstrip_def rstrip_def isspace_def py_def)
  have resp: "fst (app (test_library 0) ?st (POST_v1_embeddings \<lparr>input = py ''a b''\<rparr>)) =
     \<lparr>status_code = 200, content = Embeddings \<lparr>data = [\<lparr>embedding = [97, 32, 98]\<rparr>]\<rparr>\<rparr>"
    by (simp add: eval_defs)
  have texts: "encode_texts (calls (snd (app (test_library 0) ?st
                 (POST_v1_embeddings \<lparr>input = py ''a b''\<rparr>)))) = [py ''a b'']"
    by (simp add: eval_defs)
  show ?thesis
    using embedding_of_trimmed_input [OF l r, of "py ''a b''" "test_library 0" ?st]
      bare resp texts
    by (simp add: cat)
qed

text \<open>
  C1, with a library that may fail: for an input that is not empty after trimming, the
  response is decided by the library. When \<open>get_model\<close> returns a model, \<^verbatim>\<open>encode\<close>
  returns a vector for the trimmed text and every element of the vector passes the
  validation of \<^verbatim>\<open>List[float]\<close>, the response has status 200 and its \<^verbatim>\<open>data\<close>
  holds exactly one record, whose \<^verbatim>\<open>embedding\<close> is the validated elements, in order
  and as many as the vector has; a vector of floats is returned element by element as it
  is. When the load raises, when \<^verbatim>\<open>encode\<close> raises, or when an element is refused
  by the validation, the handler raises that exception and the response is a 500.
\<close>

theorem embedding_response_by_cases:
  assumes "strip s \<noteq> []"
  shows
    "(get_model lib st = (Inr m, st1) \<longrightarrow> encode lib (calls st1) m (strip s) = Inr v \<longrightarrow>
      validate_floats lib (elements v) = Some fs \<longrightarrow>
        app lib st (POST_v1_embeddings \<lparr>input = s\<rparr>) =
          (\<lparr>status_code = 200, content = Embeddings \<lparr>data = [\<lparr>embedding = fs\<rparr>]\<rparr>\<rparr>,
           st1\<lparr>calls := calls st1 @ [EncodeText (strip s) Returned]\<rparr>) \<and>
        length fs = length (elements v)) \<and>
     (get_model lib st = (Inr m, st1) \<longrightarrow> encode lib (calls st1) m (strip s) = Inr v \<longrightarrow>
      elements v = map Float fs \<longrightarrow>
        app lib st (POST_v1_embeddings \<lparr>input = s\<rparr>) =
          (\<lparr>status_code = 200, content = Embeddings \<lparr>data = [\<lparr>embedding = fs\<rparr>]\<rparr>\<rparr>,
           st1\<lparr>calls := calls st1 @ [EncodeText (strip s) Returned]\<rparr>)) \<and>
     (get_model lib st = (Inl e, st1) \<longrightarrow>
        generate_embeddings lib st \<lparr>input = s\<rparr> = (Inl e, st1) \<and>
        app lib st (POST_v1_embeddings \<lparr>input = s\<rparr>) =
          (\<lparr>status_code = 500, content = InternalServerError\<rparr>, st1)) \<and>
     (get_model lib st = (Inr m, st1) \<longrightarrow> encode lib (calls st1) m (strip s) = Inl msg \<longrightarrow>
        generate_embeddings lib st \<lparr>input = s\<rparr> =
          (Inl (LibraryError msg), st1\<lparr>calls := calls st1 @ [EncodeText (strip s) Raised]\<rparr>) \<and>
        app lib st (POST_v1_embeddings \<lparr>input = s\<rparr>) =
          (\<lparr>status_code = 500, content = InternalServerError\<rparr>,
           st1\<lparr>calls := calls st1 @ [EncodeText (strip s) Raised]\<rparr>)) \<and>
     (get_model lib st = (Inr m, st1) \<longrightarrow> encode lib (calls st1) m (strip s) = Inr v \<longrightarrow>
      validate_floats lib (elements v) = None \<longrightarrow>
        generate_embeddings lib st \<lparr>input = s\<rparr> =
          (Inl ValidationError, st1\<lparr>calls := calls st1 @ [EncodeText (strip s) Returned]\<rparr>) \<and>
        app lib st (POST_v1_embeddings \<lparr>input = s\<rparr>) =
          (\<lparr>status_code = 500, content = InternalServerError\<rparr>,
           st1\<lparr>calls := calls st1 @ [EncodeText (strip s) Returned]\<rparr>))"
proof -
  have ok: "get_model lib st = (Inr m, st1) \<longrightarrow> encode lib (calls st1) m (strip s) = Inr v \<longrightarrow>
      validate_floats lib (elements v) = Some fs \<longrightarrow>
        app lib st (POST_v1_embeddings \<lparr>input = s\<rparr>) =
          (\<lparr>status_code = 200, content = Embeddings \<lparr>data = [\<lparr>embedding = fs\<rparr>]\<rparr>\<rparr>,
           st1\<lparr>calls := calls st1 @ [EncodeText (strip s) Returned]\<rparr>) \<and>
        length fs = length (elements v)"
    using assms by (simp add: app_def generate_embeddings_nonempty validate_floats_length)
  have floats: "get_model lib st = (Inr m, st1) \<longrightarrow> encode lib (calls st1) m (strip s) = Inr v \<longrightarrow>
      elements v = map Float fs \<longrightarrow>
        app lib st (POST_v1_embeddings \<lparr>input = s\<rparr>) =
          (\<lparr>status_code = 200, content = Embeddings \<lparr>data = [\<lparr>embedding = fs\<rparr>]\<rparr>\<rparr>,
           st1\<lparr>calls := calls st1 @ [EncodeText (strip s) Returned]\<rparr>)"
    using assms by (simp add: app_def generate_embeddings_nonempty validate_floats_Float)
  have load: "get_model lib st = (Inl e, st1) \<longrightarrow>
        generate_embeddings lib st \<lparr>input = s\<rparr> = (Inl e, st1) \<and>
        app lib st (POST_v1_embeddings \<lparr>input = s\<rparr>) =
          (\<lparr>status_code = 500, content = InternalServerError\<rparr>, st1)"
  proof
    assume g: "get_model lib st = (Inl e, st1)"
    then obtain msg' where "e = LibraryError msg'"
      using get_model_raises_LibraryError by blast
    with g assms show "generate_embeddings lib st \<lparr>input = s\<rparr> = (Inl e, st1) \<and>
        app lib st (POST_v1_embeddings \<lparr>input = s\<rparr>) =
          (\<lparr>status_code = 500, content = InternalServerError\<rparr>, st1)"
      by (simp add: app_def generate_embeddings_nonempty)
  qed
  have enc: "get_model lib st = (Inr m, st1) \<longrightarrow> encode lib (calls st1) m (strip s) = Inl msg \<longrightarrow>
        generate_embeddings lib st \<lparr>input = s\<rparr> =
          (Inl (LibraryError msg), st1\<lparr>calls := calls st1 @ [EncodeText (strip s) Raised]\<rparr>) \<and>
        app lib st (POST_v1_embeddings \<lparr>input = s\<rparr>) =
          (\<lparr>status_code = 500, content = InternalServerError\<rparr>,
           st1\<lparr>calls := calls st1 @ [EncodeText (strip s) Raised]\<rparr>)"
    using assms by (simp add: app_def generate_embeddings_nonempty)
  have val: "get_model lib st = (Inr m, st1) \<longrightarrow> encode lib (calls st1) m (strip s) = Inr v \<longrightarrow>
      validate_floats lib (elements v) = None \<longrightarrow>
        generate_embeddings lib st \<lparr>input = s\<rparr> =
          (Inl ValidationError, st1\<lparr>calls := calls st1 @ [EncodeText (strip s) Returned]\<rparr>) \<and>
        app lib st (POST_v1_embeddings \<lparr>input = s\<rparr>) =
          (\<lparr>status_code = 500, content = InternalServerError\<rparr>,
           st1\<lparr>calls := calls st1 @ [EncodeText (strip s) Returned]\<rparr>)"
    using assms by (simp add: app_def generate_embeddings_nonempty)
  from ok floats load enc val show ?thesis by blast
qed


theorem embedding_response_by_cases_witness:
  "app (test_library 0) (import_module Map.empty) (POST_v1_embeddings \<lparr>input = py '' hi ''\<rparr>) =
     (\<lparr>status_code = 200, content = Embeddings \<lparr>data = [\<lparr>embedding = [104, 105]\<rparr>]\<rparr>\<rparr>,
      \<lparr>MODEL_NAME = py ''sentence-transformers/all-MiniLM-L6-v2'',
       model_ref = Some (py ''sentence-transformers/all-MiniLM-L6-v2''),
       calls = [LoadModel (py ''sentence-transformers/all-MiniLM-L6-v2'') Returned,
                EncodeText (py ''hi'') Returned]\<rparr>) \<and>
   fst (app (scripted_library (Inr (Iterable [Other (py ''1.5''), Float 2])))
          (import_module Map.empty) (POST_v1_embeddings \<lparr>input = py ''hi''\<rparr>)) =
     \<lparr>status_code = 200, content = Embeddings \<lparr>data = [\<lparr>embedding = [1.5, 2]\<rparr>]\<rparr>\<rparr> \<and>
   fst (app (test_library 1) (import_module Map.empty)
          (POST_v1_embeddings \<lparr>input = py ''hi''\<rparr>)) =
     \<lparr>status_code = 500, content = InternalServerError\<rparr> \<and>
   fst (app (scripted_library (Inl (py ''RuntimeError''))) (import_module Map.empty)
          (POST_v1_embeddings \<lparr>input = py ''hi''\<rparr>)) =
     \<lparr>status_code = 500, content = InternalServerError\<rparr> \<and>
   fst (app (scripted_library (Inr (Iterable [Float 2, Other (py ''x'')])))
          (import_module Map.empty) (POST_v1_embeddings \<lparr>input = py ''hi''\<rparr>)) =
     \<lparr>status_code = 500, content = InternalServerError\<rparr>"
proof -
  let ?n = "py ''sentence-transformers/all-MiniLM-L6-v2''"
  let ?st = "import_module Map.empty :: py_str module_state"
  let ?st1 = "\<lparr>MODEL_NAME = ?n, model_ref = Some ?n, calls = [LoadModel ?n Returned]\<rparr>"
  let ?st1' = "\<lparr>MODEL_NAME = ?n, model_ref = None :: py_str option, calls = [LoadModel ?n Raised]\<rparr>"
  let ?coerced = "Iterable [Other (py ''1.5''), Float 2] :: (real, py_str) element raw_vector"
  let ?refused = "Iterable [Float 2, Other (py ''x'')] :: (real, py_str) element raw_vector"
  have padded: "strip (py '' hi '') = py ''hi''" and bare: "strip (py ''hi'') = py ''hi''"
    by (simp_all add: strip_def lstrip_def rstrip_def isspace_def py_def)
  have ne: "strip (py '' hi '') \<noteq> []" and ne': "strip (py ''hi'') \<noteq> []"
    by (simp_all add: padded bare) (simp_all add: py_def)
  have g0: "get_model (test_library 0) ?st = (Inr ?n, ?st1)"
    and g1: "get_model (test_library 1) ?st = (Inl (LibraryError (py ''OSError'')), ?st1')"
    and gs: "get_model (scripted_library out) ?st = (Inr ?n, ?st1)" for out
    by (simp_all add: get_model_def import_module_def getenv_def test_library_def
        scripted_library_def)
  have e0: "encode (test_library 0) (calls ?st1) ?n (strip (py '' hi '')) =
              Inr (Array (map Float [104, 105]))"
    by (simp add: padded) (simp add: test_library_def py_def)
  have es: "encode (scripted_library out) (calls ?st1) ?n (strip (py ''hi'')) = out" for out
    by (simp add: scripted_library_def)
  have v1: "validate_floats (scripted_library (Inr ?coerced)) (elements ?coerced) = Some [1.5, 2]"
    and v2: "validate_floats (scripted_library (Inr ?refused)) (elements ?refused) = None"
    by (simp_all add: validate_float_def scripted_library_def test_library_def py_def)
  let ?fl = "Array (map Float [104, 105]) :: (real, py_str) element raw_vector"
  let ?e = "LibraryError (py ''OSError'')"
  have w1: "app (test_library 0) ?st (POST_v1_embeddings \<lparr>input = py '' hi ''\<rparr>) =
     (\<lparr>status_code = 200, content = Embeddings \<lparr>data = [\<lparr>embedding = [104, 105]\<rparr>]\<rparr>\<rparr>,
      ?st1\<lparr>calls := calls ?st1 @ [EncodeText (py ''hi'') Returned]\<rparr>)"
    using embedding_response_by_cases [OF ne, of "test_library 0" ?st ?n ?st1 ?fl "[104, 105]"
        ?e "[]"] g0 e0
    by (simp add: padded)
  have w2: "app (scripted_library (Inr ?coerced)) ?st (POST_v1_embeddings \<lparr>input = py ''hi''\<rparr>) =
     (\<lparr>status_code = 200, content = Embeddings \<lparr>data = [\<lparr>embedding = [1.5, 2]\<rparr>]\<rparr>\<rparr>,
      ?st1\<lparr>calls := calls ?st1 @ [EncodeText (py ''hi'') Returned]\<rparr>)"
    using embedding_response_by_cases [OF ne', of "scripted_library (Inr ?coerced)" ?st ?n ?st1
        ?coerced "[1.5, 2]" ?e "[]"] gs [of "Inr ?coerced"] es [of "Inr ?coerced"] v1
    by (simp add: bare)
  have w3: "app (test_library 1) ?st (POST_v1_embeddings \<lparr>input = py ''hi''\<rparr>) =
     (\<lparr>status_code = 500, content = InternalServerError\<rparr>, ?st1')"
    using embedding_response_by_cases [OF ne', of "test_library 1" ?st ?n ?st1' ?fl "[]"
        ?e "[]"] g1
    by simp
  have w4: "app (scripted_library (Inl (py ''RuntimeError''))) ?st
              (POST_v1_embeddings \<lparr>input = py ''hi''\<rparr>) =
     (\<lparr>status_code = 500, content = InternalServerError\<rparr>,
      ?st1\<lparr>calls := calls ?st1 @ [EncodeText (py ''hi'') Raised]\<rparr>)"
    using embedding_response_by_cases [OF ne', of "scripted_library (Inl (py ''RuntimeError''))"
        ?st ?n ?st1 ?fl "[]" ?e "py ''RuntimeError''"]
      gs [of "Inl (py ''RuntimeError'')"] es [of "Inl (py ''RuntimeError'')"]
    by (simp add: bare)
  have w5: "app (scripted_library (Inr ?refused)) ?st (POST_v1_embeddings \<lparr>input = py ''hi''\<rparr>) =
     (\<lparr>status_code = 500, content = InternalServerError\<rparr>,
      ?st1\<lparr>calls := calls ?st1 @ [EncodeText (py ''hi'') Returned]\<rparr>)"
    using embedding_response_by_cases [OF ne', of "scripted_library (Inr ?refused)" ?st ?n ?st1
        ?refused "[]" ?e "[]"] gs [of "Inr ?refused"] es [of "Inr ?refused"] v2
    by (simp add: bare)
  show ?thesis
    using w1 w2 w3 w4 w5 by simp
qed

text \<open>
  C1 does not hold for every library: the input \<^verbatim>\<open>"hi"\<close> is not empty after trimming;
  with a model that fails to load the handler raises the library's exception and the
  response is a 500, and with a model whose vector is empty the response is a 200 whose
  embedding is the empty list.
\<close>

theorem embedding_request_fails_counterexample:
  "strip (py ''hi'') = py ''hi'' \<and>
   fst (generate_embeddings (test_library 1) (import_module Map.empty) \<lparr>input = py ''hi''\<rparr>)
     = Inl (LibraryError (py ''OSError'')) \<and>
   fst (app (test_library 1) (import_module Map.empty) (POST_v1_embeddings \<lparr>input = py ''hi''\<rparr>))
     = \<lparr>status_code = 500, content = InternalServerError\<rparr> \<and>
   fst (app (scripted_library (Inr (Array []))) (import_module Map.empty)
          (POST_v1_embeddings \<lparr>input = py ''hi''\<rparr>))
     = \<lparr>status_code = 200, content = Embeddings \<lparr>data = [\<lparr>embedding = []\<rparr>]\<rparr>\<rparr>"
  by (simp add: eval_defs)

text \<open>
  C4: when the stored reference is \<open>None\<close> and the constructor raises, \<open>get_model\<close>
  raises the same exception and the reference stays \<open>None\<close>: only the log of library
  calls grows. The embedding handler does not catch the exception either (the response is
  a 500). The next call of \<open>get_model\<close> calls the constructor again, with the same
  identifier, and stores the model if the load succeeds this time.
\<close>

theorem failed_load_is_not_cached:
  assumes "model_ref st = None"
    and "SentenceTransformer lib (calls st) (MODEL_NAME st) = Inl e"
    and "st' = st\<lparr>calls := calls st @ [LoadModel (MODEL_NAME st) Raised]\<rparr>"
  shows "get_model lib st = (Inl (LibraryError e), st') \<and>
         model_ref st' = None \<and>
         (strip s \<noteq> [] \<longrightarrow>
            generate_embeddings lib st \<lparr>input = s\<rparr> = (Inl (LibraryError e), st') \<and>
            app lib st (POST_v1_embeddings \<lparr>input = s\<rparr>) =
              (\<lparr>status_code = 500, content = InternalServerError\<rparr>, st')) \<and>
         get_model lib' st' =
           (case SentenceTransformer lib' (calls st') (MODEL_NAME st) of
              Inl e' \<Rightarrow>
                (Inl (LibraryError e'),
                 st'\<lparr>calls := calls st' @ [LoadModel (MODEL_NAME st) Raised]\<rparr>)
            | Inr m \<Rightarrow>
                (Inr m,
                 st'\<lparr>model_ref := Some m,
                     calls := calls st' @ [LoadModel (MODEL_NAME st) Returned]\<rparr>))"
proof -
  have g: "get_model lib st = (Inl (LibraryError e), st')"
    using assms by (simp add: get_model_load_raises)
  have n: "model_ref st' = None" and k: "MODEL_NAME st' = MODEL_NAME st"
    using assms by simp_all
  have p: "strip s \<noteq> [] \<longrightarrow>
            generate_embeddings lib st \<lparr>input = s\<rparr> = (Inl (LibraryError e), st') \<and>
            app lib st (POST_v1_embeddings \<lparr>input = s\<rparr>) =
              (\<lparr>status_code = 500, content = InternalServerError\<rparr>, st')"
    using g by (simp add: app_def generate_embeddings_nonempty)
  have r: "get_model lib' st' =
           (case SentenceTransformer lib' (calls st') (MODEL_NAME st) of
              Inl e' \<Rightarrow>
                (Inl (LibraryError e'),
                 st'\<lparr>calls := calls st' @ [LoadModel (MODEL_NAME st) Raised]\<rparr>)
            | Inr m \<Rightarrow>
                (Inr m,
                 st'\<lparr>model_ref := Some m,
                     calls := calls st' @ [LoadModel (MODEL_NAME st) Returned]\<rparr>))"
    using n k by (simp add: get_model_def split: sum.splits)
  from g n p r show ?thesis by blast
qed

theorem failed_load_is_not_cached_witness:
  "get_model (test_library 1) (import_module Map.empty) =
     (Inl (LibraryError (py ''OSError'')),
      \<lparr>MODEL_NAME = py ''sentence-transformers/all-MiniLM-L6-v2'', model_ref = None,
       calls = [LoadModel (py ''sentence-transformers/all-MiniLM-L6-v2'') Raised]\<rparr>) \<and>
   get_model (test_library 1)
     \<lparr>MODEL_NAME = py ''sentence-transformers/all-MiniLM-L6-v2'', model_ref = None,
      calls = [LoadModel (py ''sentence-transformers/all-MiniLM-L6-v2'') Raised]\<rparr> =
     (Inr (py ''sentence-transformers/all-MiniLM-L6-v2''),
      \<lparr>MODEL_NAME = py ''sentence-transformers/all-MiniLM-L6-v2'',
       model_ref = Some (py ''sentence-transformers/all-MiniLM-L6-v2''),
       calls = [LoadModel (py ''sentence-transformers/all-MiniLM-L6-v2'') Raised,
                LoadModel (py ''sentence-transformers/all-MiniLM-L6-v2'') Returned]\<rparr>)"
proof -
  let ?n = "py ''sentence-transformers/all-MiniLM-L6-v2''"
  let ?st = "import_module Map.empty :: py_str module_state"
  let ?st' = "\<lparr>MODEL_NAME = ?n, model_ref = None, calls = [LoadModel ?n Raised]\<rparr> :: py_str module_state"
  have a: "model_ref ?st = None"
    by (simp add: import_module_def)
  have b: "SentenceTransformer (test_library 1) (calls ?st) (MODEL_NAME ?st) = Inl (py ''OSError'')"
    by (simp add: import_module_def test_library_def)
  have c: "?st' = ?st\<lparr>calls := calls ?st @ [LoadModel (MODEL_NAME ?st) Raised]\<rparr>"
    by (simp add: import_module_def getenv_def)
  have d: "SentenceTransformer (test_library 1) (calls ?st') (MODEL_NAME ?st) = Inr ?n"
    by (simp add: import_module_def getenv_def test_library_def)
  show ?thesis
    using failed_load_is_not_cached [OF a b c, of "[]" "test_library 1"] d
    by (simp add: import_module_def getenv_def)
qed


text \<open>
  C3, with load operations that may fail: \<open>get_model\<close> returns the stored model and changes nothing when the
  reference is set; when it is \<open>None\<close> and the constructor returns a model, that model
  is stored and returned. In the lifetime of a process at most one load returns a model;
  once the reference is set, no request replaces it or loads again; and when no load
  fails, any sequence of requests makes at most one load.
\<close>

theorem model_handle_created_at_most_once:
  "(model_ref st = Some m \<longrightarrow> get_model lib st = (Inr m, st)) \<and>
   (model_ref st = None \<longrightarrow> SentenceTransformer lib (calls st) (MODEL_NAME st) = Inr m \<longrightarrow>
      get_model lib st =
        (Inr m, st\<lparr>model_ref := Some m,
                   calls := calls st @ [LoadModel (MODEL_NAME st) Returned]\<rparr>)) \<and>
   models_created (snd (serve lib (import_module environ) reqs)) \<le> 1 \<and>
   (model_ref st = Some m \<longrightarrow>
      model_ref (snd (serve lib st reqs)) = Some m \<and>
      loads (snd (serve lib st reqs)) = loads st) \<and>
   ((\<forall>h n. \<exists>m'. SentenceTransformer lib h n = Inr m') \<longrightarrow>
      loads (snd (serve lib (import_module environ) reqs)) \<le> 1)"
proof -
  let ?end = "snd (serve lib (import_module environ) reqs)"
  have inv0: "models_created (import_module environ :: 'a module_state) =
      (if model_ref (import_module environ :: 'a module_state) = None then 0 else 1)"
    by (simp add: models_created_def import_module_def)
  have "models_created ?end = (if model_ref ?end = None then 0 else 1)"
    using inv0 by (rule serve_created)
  then have created: "models_created ?end \<le> 1"
    by simp
  have kept: "model_ref st = Some m \<longrightarrow>
      model_ref (snd (serve lib st reqs)) = Some m \<and>
      loads (snd (serve lib st reqs)) = loads st"
    using serve_keeps_model [of st m lib reqs] by (simp add: loads_def)
  have nofail: "loads ?end \<le> 1" if ok: "\<forall>h n. \<exists>m'. SentenceTransformer lib h n = Inr m'"
  proof -
    have "set (load_outcomes (calls ?end)) \<subseteq> {Returned}"
      using serve_load_outcomes [OF ok, of "import_module environ" reqs]
      by (simp add: import_module_def)
    then have "filter (\<lambda>out. out = Returned) (load_outcomes (calls ?end)) =
                 load_outcomes (calls ?end)"
      by (auto simp: filter_id_conv)
    then have "loads ?end = models_created ?end"
      by (simp add: loads_def models_created_def)
    with created show ?thesis by simp
  qed
  from created kept nofail show ?thesis
    by (simp add: get_model_loaded get_model_load_returns)
qed

theorem model_handle_created_at_most_once_witness:
  "loads (snd (serve (test_library 0) (import_module Map.empty)
                [POST_v1_embeddings \<lparr>input = py ''hi''\<rparr>,
                 POST_v1_embeddings \<lparr>input = py ''hi''\<rparr>])) = 1 \<and>
   models_created (snd (serve (test_library 0) (import_module Map.empty)
                [POST_v1_embeddings \<lparr>input = py ''hi''\<rparr>,
                 POST_v1_embeddings \<lparr>input = py ''hi''\<rparr>])) \<le> 1 \<and>
   model_ref (snd (serve (test_library 2)
                \<lparr>MODEL_NAME = py ''m'', model_ref = Some (py ''m''), calls = []\<rparr>
                [POST_v1_embeddings \<lparr>input = py ''hi''\<rparr>])) = Some (py ''m'') \<and>
   loads (snd (serve (test_library 2)
                \<lparr>MODEL_NAME = py ''m'', model_ref = Some (py ''m''), calls = []\<rparr>
                [POST_v1_embeddings \<lparr>input = py ''hi''\<rparr>])) = 0"
proof -
  let ?reqs = "[POST_v1_embeddings \<lparr>input = py ''hi''\<rparr>, POST_v1_embeddings \<lparr>input = py ''hi''\<rparr>]"
  let ?st = "\<lparr>MODEL_NAME = py ''m'', model_ref = Some (py ''m''), calls = []\<rparr> :: py_str module_state"
  have ok: "\<forall>h n. \<exists>m'. SentenceTransformer (test_library 0) h n = Inr m'"
    by (simp add: test_library_def)
  have one: "loads (snd (serve (test_library 0) (import_module Map.empty) ?reqs)) = 1"
    by (simp add: eval_defs)
  have set: "model_ref ?st = Some (py ''m'')" and zero: "loads ?st = 0"
    by (simp_all add: loads_def)
  show ?thesis
    using one ok set zero
      model_handle_created_at_most_once [of ?st "py ''m''" "test_library 0" Map.empty ?reqs]
      model_handle_created_at_most_once [of ?st "py ''m''" "test_library 2" Map.empty
        "[POST_v1_embeddings \<lparr>input = py ''hi''\<rparr>]"]
    by simp
qed

text \<open>
  Two embedding requests can make two load operations (C3): in a process whose first two library calls fail, the first
  embedding request makes a load that raises, and the second request loads again: two
  load operations for two requests.
\<close>

theorem two_requests_two_loads_counterexample:
  "strip (py ''hi'') \<noteq> [] \<and>
   loads (snd (serve (test_library 2) (import_module Map.empty)
                [POST_v1_embeddings \<lparr>input = py ''hi''\<rparr>,
                 POST_v1_embeddings \<lparr>input = py ''hi''\<rparr>])) = 2"
  by (simp add: eval_defs)



end
